theory Spec2Isabelle
  imports Main
begin

section \<open>JavaScript values read by the ingestion endpoint\<close>

text \<open>
  The request body of \<^verbatim>\<open>POST /api/scan\<close> is whatever \<^verbatim>\<open>express.json()\<close> parsed, so its
  fields are arbitrary JSON values, and a field that is absent reads as \<^verbatim>\<open>undefined\<close>.
  Numbers are the integer-valued ones; a \<open>char\<close> of a string stands for one UTF-16 code
  unit, which is what \<^verbatim>\<open>.length\<close> counts. An object is the list of its own properties,
  each key once.
\<close>

datatype jsval =
    JUndefined
  | JNull
  | JBool bool
  | JNum int
  | JStr string
  | JArr "jsval list"
  | JObj "(string \<times> jsval) list"

text \<open>What \<^verbatim>\<open>!v\<close>, \<^verbatim>\<open>a || b\<close> and \<^verbatim>\<open>if (v)\<close> test.\<close>

fun truthy :: "jsval \<Rightarrow> bool" where
  "truthy JUndefined = False"
| "truthy JNull = False"
| "truthy (JBool b) = b"
| "truthy (JNum n) = (n \<noteq> 0)"
| "truthy (JStr s) = (s \<noteq> [])"
| "truthy (JArr xs) = True"
| "truthy (JObj fs) = True"

definition js_or :: "jsval \<Rightarrow> jsval \<Rightarrow> jsval" where
  "js_or a b = (if truthy a then a else b)"

text \<open>Reading a property of the parsed body: \<^verbatim>\<open>undefined\<close> when the key is absent.\<close>

definition field :: "(string \<times> jsval) list \<Rightarrow> string \<Rightarrow> jsval" where
  "field obj k = (case map_of obj k of None \<Rightarrow> JUndefined | Some v \<Rightarrow> v)"

text \<open>
  A thrown value, as the catch block reads it: \<^verbatim>\<open>error.code\<close>, \<^verbatim>\<open>error.number\<close> and
  \<^verbatim>\<open>error.message\<close>.
\<close>

record js_error =
  err_code :: jsval
  err_number :: jsval
  err_message :: jsval

definition type_error :: "string \<Rightarrow> js_error" where
  "type_error msg = \<lparr>err_code = JUndefined, err_number = JUndefined, err_message = JStr msg\<rparr>"

text \<open>
  \<^verbatim>\<open>v.length\<close>: a string and an array have their length, a number and a boolean have no
  such property, an object has it when it is one of its own properties, and reading a
  property of \<^verbatim>\<open>undefined\<close> or \<^verbatim>\<open>null\<close> throws.
\<close>

fun get_length :: "jsval \<Rightarrow> js_error + jsval" where
  "get_length JUndefined = Inl (type_error ''Cannot read properties of undefined'')"
| "get_length JNull = Inl (type_error ''Cannot read properties of null'')"
| "get_length (JBool b) = Inr JUndefined"
| "get_length (JNum n) = Inr JUndefined"
| "get_length (JStr s) = Inr (JNum (int (length s)))"
| "get_length (JArr xs) = Inr (JNum (int (length xs)))"
| "get_length (JObj fs) = Inr (field fs ''length'')"

datatype jsnum = NaN | Fin int

section \<open>What the handler is given by its surroundings\<close>

text \<open>
  The storage driver, the clock and the parts of the language runtime that are not
  embedded here are parameters of the handlers:
  \<^item> \<open>to_number_ext\<close> is the numeric conversion of a string, an array or an object when it
    is compared with a number (it may throw);
  \<^item> \<open>connect_outcome\<close> is what \<^verbatim>\<open>await sql.connect(dbConfig)\<close> does (\<open>None\<close>: a pool is
    returned; \<open>Some e\<close>: it throws \<open>e\<close>), \<open>query_outcome\<close> what \<^verbatim>\<open>await request.query(..)\<close>
    does on a statement and its bound parameters (the record set, or the error thrown) and
    \<open>close_outcome\<close> what \<^verbatim>\<open>await pool.close()\<close> does;
  \<^item> \<open>elapsed_ms\<close> is the time that passes between the arrival of the request and the
    evaluation of \<^verbatim>\<open>new Date()\<close> for the response, and \<open>toISOString\<close> renders an instant
    (milliseconds since the epoch).
\<close>

datatype sql_type = VarChar nat | DateTime2

datatype sql_value = Val jsval | NewDate jsval

type_synonym binding = "string \<times> sql_type \<times> sql_value"

record runtime =
  to_number_ext :: "jsval \<Rightarrow> js_error + jsnum"
  connect_outcome :: "js_error option"
  query_outcome :: "string \<Rightarrow> binding list \<Rightarrow> js_error + jsval list"
  close_outcome :: "js_error option"
  elapsed_ms :: nat
  toISOString :: "nat \<Rightarrow> string"

text \<open>The operand of \<^verbatim>\<open><\<close> and \<^verbatim>\<open>></\<close> against a number literal, converted to a number.\<close>

fun to_number :: "runtime \<Rightarrow> jsval \<Rightarrow> js_error + jsnum" where
  "to_number rt JUndefined = Inr NaN"
| "to_number rt JNull = Inr (Fin 0)"
| "to_number rt (JBool b) = Inr (Fin (if b then 1 else 0))"
| "to_number rt (JNum n) = Inr (Fin n)"
| "to_number rt v = to_number_ext rt v"

definition js_lt :: "runtime \<Rightarrow> jsval \<Rightarrow> int \<Rightarrow> js_error + bool" where
  "js_lt rt v k =
     (case to_number rt v of
        Inl e \<Rightarrow> Inl e
      | Inr NaN \<Rightarrow> Inr False
      | Inr (Fin n) \<Rightarrow> Inr (n < k))"

definition js_gt :: "runtime \<Rightarrow> jsval \<Rightarrow> int \<Rightarrow> js_error + bool" where
  "js_gt rt v k =
     (case to_number rt v of
        Inl e \<Rightarrow> Inl e
      | Inr NaN \<Rightarrow> Inr False
      | Inr (Fin n) \<Rightarrow> Inr (n > k))"

section \<open>The ingestion endpoint: \<^verbatim>\<open>POST /api/scan\<close>\<close>

record response =
  status :: nat
  body :: "(string \<times> jsval) list"

text \<open>
  The calls made on the storage driver, in order, each with whether it returned
  (\<open>True\<close>) or threw (\<open>False\<close>).
\<close>

datatype storage_op =
    Connect bool
  | Query string "binding list" bool
  | Close bool

text \<open>
  What a request leaves behind: the calls of \<^verbatim>\<open>res.status(..).json(..)\<close> in order and
  the calls on the storage driver. The client is sent the first response; a later call
  finds the headers already sent. A body is the object handed to \<^verbatim>\<open>json\<close>, before it
  is serialised (which drops a key whose value is \<^verbatim>\<open>undefined\<close>).
\<close>

record outcome =
  responses :: "response list"
  ops :: "storage_op list"

text \<open>
  \<^verbatim>\<open>if (employeeId.length < 3 || employeeId.length > 50)\<close>
\<close>

definition length_out_of_range :: "runtime \<Rightarrow> jsval \<Rightarrow> js_error + bool" where
  "length_out_of_range rt employeeId =
     (case get_length employeeId of
        Inl e \<Rightarrow> Inl e
      | Inr len \<Rightarrow>
          (case js_lt rt len 3 of
             Inl e \<Rightarrow> Inl e
           | Inr True \<Rightarrow> Inr True
           | Inr False \<Rightarrow> js_gt rt len 50))"

definition missing_response :: response where
  "missing_response =
     \<lparr>status = 400,
      body = [(''success'', JBool False),
              (''message'', JStr ''Employee ID and scan time are required'')]\<rparr>"

definition length_response :: response where
  "length_response =
     \<lparr>status = 400,
      body = [(''success'', JBool False),
              (''message'', JStr ''Employee ID must be between 3 and 50 characters'')]\<rparr>"

text \<open>The statement text: a constant of the source, with named placeholders only.\<close>

definition sqlQuery :: string where
  "sqlQuery =
     [CHR 0x0A] @ ''            INSERT INTO AttendanceScans '' @
     [CHR 0x0A] @ ''            (EmployeeID, ScanDateTime, BarcodeType, DeviceInfo, CreatedAt) '' @
     [CHR 0x0A] @ ''            VALUES '' @
     [CHR 0x0A] @ ''            (@employeeId, @scanDateTime, @scanType, @deviceInfo, GETDATE())'' @
     [CHR 0x0A] @ ''        ''"

text \<open>The four \<^verbatim>\<open>request.input(name, type, value)\<close> calls.\<close>

definition scan_inputs :: "jsval \<Rightarrow> jsval \<Rightarrow> jsval \<Rightarrow> jsval \<Rightarrow> binding list" where
  "scan_inputs employeeId scanDateTime scanType deviceInfo =
     [(''employeeId'', VarChar 50, Val employeeId),
      (''scanDateTime'', DateTime2, NewDate scanDateTime),
      (''scanType'', VarChar 20, Val (js_or scanType (JStr ''UNKNOWN''))),
      (''deviceInfo'', VarChar 100, Val (js_or deviceInfo (JStr ''Mobile Scanner'')))]"

definition created_response :: "runtime \<Rightarrow> nat \<Rightarrow> jsval \<Rightarrow> jsval \<Rightarrow> jsval \<Rightarrow> response" where
  "created_response rt received employeeId scanDateTime scanType =
     \<lparr>status = 201,
      body = [(''success'', JBool True),
              (''message'', JStr ''Scan recorded successfully''),
              (''data'', JObj [(''employeeId'', employeeId),
                               (''scanDateTime'', scanDateTime),
                               (''scanType'', scanType),
                               (''recordedAt'',
                                  JStr (toISOString rt (received + elapsed_ms rt)))])]\<rparr>"

text \<open>The catch block of the handler.\<close>

definition catch_response :: "js_error \<Rightarrow> response" where
  "catch_response error =
     (let errorMessage = ''Failed to record scan'';
          statusCode = 500;
          (errorMessage, statusCode) =
            (if err_code error = JStr ''ELOGIN'' then
               (''Database login failed. Check credentials.'', 401)
             else if err_code error = JStr ''ESOCKET'' then
               (''Cannot connect to SQL Server. Check server address and firewall.'', 503)
             else if err_number error = JNum 208 then
               (''Table not found. Check table name in database.'', statusCode)
             else if err_number error = JNum 547 then
               (''Employee ID not found in system.'', 400)
             else (errorMessage, statusCode))
      in \<lparr>status = statusCode,
          body = [(''success'', JBool False),
                  (''message'', JStr errorMessage),
                  (''error'', err_message error),
                  (''errorCode'', js_or (err_code error) (err_number error))]\<rparr>)"

text \<open>
  The handler. \<open>received\<close> is the instant at which the request arrived and \<open>reqBody\<close> the
  parsed body. Every statement of the handler stands inside its \<^verbatim>\<open>try\<close>, so whatever
  throws is answered by the catch block: the length test, \<^verbatim>\<open>sql.connect\<close>, the query and,
  after the 201 has been written, \<^verbatim>\<open>pool.close()\<close>. The two validation responses return
  from the handler before any call on the storage. Console output is left out.
\<close>

definition post_scan :: "runtime \<Rightarrow> nat \<Rightarrow> (string \<times> jsval) list \<Rightarrow> outcome" where
  "post_scan rt received reqBody =
     (let employeeId = field reqBody ''employeeId'';
          scanDateTime = field reqBody ''scanDateTime'';
          scanType = field reqBody ''scanType'';
          deviceInfo = field reqBody ''deviceInfo''
      in
        if \<not> truthy employeeId \<or> \<not> truthy scanDateTime then
          \<lparr>responses = [missing_response], ops = []\<rparr>
        else
          (case length_out_of_range rt employeeId of
             Inl error \<Rightarrow> \<lparr>responses = [catch_response error], ops = []\<rparr>
           | Inr True \<Rightarrow> \<lparr>responses = [length_response], ops = []\<rparr>
           | Inr False \<Rightarrow>
               (case connect_outcome rt of
                  Some error \<Rightarrow>
                    \<lparr>responses = [catch_response error], ops = [Connect False]\<rparr>
                | None \<Rightarrow>
                    (let inputs = scan_inputs employeeId scanDateTime scanType deviceInfo
                     in
                       case query_outcome rt sqlQuery inputs of
                         Inl error \<Rightarrow>
                           \<lparr>responses = [catch_response error],
                            ops = [Connect True, Query sqlQuery inputs False]\<rparr>
                       | Inr result \<Rightarrow>
                           (let created =
                                  created_response rt received employeeId scanDateTime scanType
                            in
                              case close_outcome rt of
                                None \<Rightarrow>
                                  \<lparr>responses = [created],
                                   ops = [Connect True, Query sqlQuery inputs True, Close True]\<rparr>
                              | Some error \<Rightarrow>
                                  \<lparr>responses = [created, catch_response error],
                                   ops = [Connect True, Query sqlQuery inputs True,
                                          Close False]\<rparr>)))))"

section \<open>A retrieval path: \<^verbatim>\<open>GET /api/scans\<close>\<close>

definition scansQuery :: string where
  "scansQuery =
     [CHR 0x0A] @ ''            SELECT TOP 50 '' @
     [CHR 0x0A] @ ''                EmployeeID, '' @
     [CHR 0x0A] @ ''                ScanDateTime, '' @
     [CHR 0x0A] @ ''                BarcodeType,'' @
     [CHR 0x0A] @ ''                DeviceInfo,'' @
     [CHR 0x0A] @ ''                CreatedAt'' @
     [CHR 0x0A] @ ''            FROM AttendanceScans '' @
     [CHR 0x0A] @ ''            ORDER BY ScanDateTime DESC'' @
     [CHR 0x0A] @ ''        ''"

definition fetch_failed_response :: response where
  "fetch_failed_response =
     \<lparr>status = 500,
      body = [(''success'', JBool False), (''message'', JStr ''Failed to fetch scans'')]\<rparr>"

text \<open>
  Here the pool is closed before the response is written, and the catch block answers
  every exception alike.
\<close>

definition get_scans :: "runtime \<Rightarrow> outcome" where
  "get_scans rt =
     (case connect_outcome rt of
        Some error \<Rightarrow> \<lparr>responses = [fetch_failed_response], ops = [Connect False]\<rparr>
      | None \<Rightarrow>
          (case query_outcome rt scansQuery [] of
             Inl error \<Rightarrow>
               \<lparr>responses = [fetch_failed_response],
                ops = [Connect True, Query scansQuery [] False]\<rparr>
           | Inr recordset \<Rightarrow>
               (case close_outcome rt of
                  Some error \<Rightarrow>
                    \<lparr>responses = [fetch_failed_response],
                     ops = [Connect True, Query scansQuery [] True, Close False]\<rparr>
                | None \<Rightarrow>
                    \<lparr>responses =
                       [\<lparr>status = 200,
                         body = [(''success'', JBool True),
                                 (''count'', JNum (int (length recordset))),
                                 (''scans'', JArr recordset)]\<rparr>],
                     ops = [Connect True, Query scansQuery [] True, Close True]\<rparr>)))"

section \<open>Observations on an outcome\<close>

text \<open>The response the client is sent: the first call of \<^verbatim>\<open>res.status(..).json(..)\<close>.\<close>

definition sent :: "outcome \<Rightarrow> response option" where
  "sent out = (case responses out of [] \<Rightarrow> None | r # rs \<Rightarrow> Some r)"



text \<open>A pool was acquired; the acquired pool was closed.\<close>

definition acquired :: "outcome \<Rightarrow> bool" where
  "acquired out = (Connect True \<in> set (ops out))"

definition released :: "outcome \<Rightarrow> bool" where
  "released out = (Close True \<in> set (ops out))"

text \<open>The keys of a response body, in the order the handler wrote them.\<close>

definition body_keys :: "response \<Rightarrow> string list" where
  "body_keys r = map fst (body r)"

section \<open>The scanner screen: \<^verbatim>\<open>BarcodeScannerScreen\<close>\<close>

text \<open>
  The state of the component is what its \<^verbatim>\<open>useState\<close> hooks hold, together with the
  camera permission the \<^verbatim>\<open>useCameraPermissions\<close> hook reports (\<open>None\<close> while it is not
  known yet). The machine is in \<open>Idle\<close> when \<open>scanned\<close> is false and in \<open>Captured\<close> when
  it is true; the held candidate is \<open>scannedData\<close> with \<open>scanTime\<close>.

  A render reads these values once. The handlers and the props it creates keep the values
  it read, whatever the setters are given afterwards: a value that is set shows in the
  next render. So a handler has two states before it, the one its render read and the one
  the hooks hold when it runs.
\<close>

datatype camera_type = Back | Front

record scanner =
  permission :: "bool option"
  scanned :: bool
  scannedData :: string
  scanTime :: string
  facing :: camera_type
  isActive :: bool

definition mounted :: scanner where
  "mounted =
     \<lparr>permission = None, scanned = False, scannedData = '''', scanTime = '''',
      facing = Back, isActive = True\<rparr>"

text \<open>
  What the component does besides updating its state: it shows an alert (title, message
  and the labels of its buttons), writes to the console and asks for the camera
  permission. These are all the effects of its handlers; the orientation lock taken on
  mount is left out.
\<close>

datatype effect =
    Alert string string "string list"
  | ConsoleLog string
  | RequestPermission

text \<open>
  What the user and the platform can do to the screen. A detection carries the decoded
  result (\<open>type\<close>, \<open>data\<close>) and the instant at which the handler reads the clock. Events
  are delivered one at a time. The alert's buttons are \<open>PressAlertOK\<close> and
  \<open>PressAlertScanAgain\<close>; the buttons of the controls panel are \<open>PressScanAgain\<close> and
  \<open>PressFlipCamera\<close>.
\<close>

datatype event =
    BarcodeDetected nat string string
  | PressAlertOK
  | PressAlertScanAgain
  | PressScanAgain
  | PressFlipCamera
  | PressGrantPermission
  | PermissionReported bool
  | ScreenFocused
  | ScreenBlurred

text \<open>
  The camera view and the controls panel are rendered only when the permission is granted
  and the screen is active.
\<close>

definition camera_rendered :: "scanner \<Rightarrow> bool" where
  "camera_rendered s = (permission s = Some True \<and> isActive s)"

text \<open>\<^verbatim>\<open>onBarcodeScanned={scanned ? undefined : handleBarCodeScanned}\<close>\<close>

definition detection_enabled :: "scanner \<Rightarrow> bool" where
  "detection_enabled s = (camera_rendered s \<and> \<not> scanned s)"

definition alert_message :: "string \<Rightarrow> string \<Rightarrow> string \<Rightarrow> string" where
  "alert_message type data formattedTime =
     ''Type: '' @ type @ [CHR 0x0A] @ ''Data: '' @ data @ [CHR 0x0A, CHR 0x0A] @
     ''Time: '' @ formattedTime @ [CHR 0x0A, CHR 0x0A] @
     ''Data will be sent to server when backend is implemented.''"

text \<open>
  The handler created by a render that read \<open>render\<close>, called when the hooks hold \<open>s\<close>.
  Its guard \<^verbatim>\<open>if (!scanned)\<close> tests the \<open>scanned\<close> of its render; the three setters are
  given constants. \<open>toLocaleString\<close> is the platform's rendering of an instant, a
  parameter.
\<close>

definition handleBarCodeScanned ::
  "(nat \<Rightarrow> string) \<Rightarrow> scanner \<Rightarrow> nat \<Rightarrow> string \<Rightarrow> string \<Rightarrow> scanner \<Rightarrow>
   scanner \<times> effect list" where
  "handleBarCodeScanned toLocaleString render now type data s =
     (if \<not> scanned render then
        (let formattedTime = toLocaleString now
         in (s\<lparr>scanned := True, scannedData := data, scanTime := formattedTime\<rparr>,
             [Alert ''Barcode Scanned!'' (alert_message type data formattedTime)
                [''OK'', ''Scan Again'']]))
      else (s, []))"

definition resetScanner :: "scanner \<Rightarrow> scanner" where
  "resetScanner s = s\<lparr>scanned := False, scannedData := '''', scanTime := ''''\<rparr>"

text \<open>\<^verbatim>\<open>setFacing(current => ...)\<close> is given a function of the value the hook holds.\<close>

definition toggleCameraFacing :: "scanner \<Rightarrow> scanner" where
  "toggleCameraFacing s = s\<lparr>facing := (if facing s = Back then Front else Back)\<rparr>"

text \<open>
  An event delivered to the tree of the render that read \<open>render\<close>, when the hooks hold \<open>s\<close>.
  What is on the screen (the camera view with its \<^verbatim>\<open>onBarcodeScanned\<close> prop, the buttons of
  the panel, the permission button) is what that render returned; what the handlers set
  goes into \<open>s\<close>.
\<close>

fun deliver ::
  "(nat \<Rightarrow> string) \<Rightarrow> scanner \<Rightarrow> event \<Rightarrow> scanner \<Rightarrow> scanner \<times> effect list" where
  "deliver fmt render (BarcodeDetected now type data) s =
     (if detection_enabled render then handleBarCodeScanned fmt render now type data s
      else (s, []))"
| "deliver fmt render PressAlertOK s = (s, [ConsoleLog ''OK Pressed''])"
| "deliver fmt render PressAlertScanAgain s = (resetScanner s, [])"
| "deliver fmt render PressScanAgain s =
     (if camera_rendered render \<and> scanned render then (resetScanner s, []) else (s, []))"
| "deliver fmt render PressFlipCamera s =
     (if camera_rendered render then (toggleCameraFacing s, []) else (s, []))"
| "deliver fmt render PressGrantPermission s =
     (if permission render = Some False then (s, [RequestPermission]) else (s, []))"
| "deliver fmt render (PermissionReported granted) s = (s\<lparr>permission := Some granted\<rparr>, [])"
| "deliver fmt render ScreenFocused s = (s\<lparr>isActive := True\<rparr>, [])"
| "deliver fmt render ScreenBlurred s = (s\<lparr>isActive := False\<rparr>, [])"

text \<open>
  The screen between two events: the values the hooks hold and the values the last
  render read. Its history is made of events and renders; a render reads the hooks.
\<close>

record screen =
  hooks :: scanner
  rendered :: scanner

datatype moment = Event event | Render

fun advance :: "(nat \<Rightarrow> string) \<Rightarrow> moment \<Rightarrow> screen \<Rightarrow> screen \<times> effect list" where
  "advance fmt (Event e) sc =
     (case deliver fmt (rendered sc) e (hooks sc) of (s', fx) \<Rightarrow> (sc\<lparr>hooks := s'\<rparr>, fx))"
| "advance fmt Render sc = (sc\<lparr>rendered := hooks sc\<rparr>, [])"

fun play :: "(nat \<Rightarrow> string) \<Rightarrow> moment list \<Rightarrow> screen \<Rightarrow> screen \<times> effect list" where
  "play fmt [] sc = (sc, [])"
| "play fmt (m # ms) sc =
     (case advance fmt m sc of
        (sc', fx) \<Rightarrow> (case play fmt ms sc' of (sc'', fx') \<Rightarrow> (sc'', fx @ fx')))"

text \<open>
  An event that meets the render of the very state it acts on, and a list of events with
  a render after each of them: \<open>step\<close> and \<open>run\<close> describe the screen when it has
  rendered before every event, and only then.
\<close>

definition step :: "(nat \<Rightarrow> string) \<Rightarrow> event \<Rightarrow> scanner \<Rightarrow> scanner \<times> effect list" where
  "step fmt e s = deliver fmt s e s"

fun run :: "(nat \<Rightarrow> string) \<Rightarrow> event list \<Rightarrow> scanner \<Rightarrow> scanner \<times> effect list" where
  "run fmt [] s = (s, [])"
| "run fmt (e # es) s =
     (case step fmt e s of
        (s', fx) \<Rightarrow> (case run fmt es s' of (s'', fx') \<Rightarrow> (s'', fx @ fx')))"


fun is_detection :: "event \<Rightarrow> bool" where
  "is_detection (BarcodeDetected now type data) = True"
| "is_detection e = False"

fun detection_or_render :: "moment \<Rightarrow> bool" where
  "detection_or_render (Event e) = is_detection e"
| "detection_or_render Render = True"

section \<open>Example environments and inputs\<close>

text \<open>
  The concrete evaluations below use a clock rendered as the decimal number of
  milliseconds, a storage that accepts everything, one whose host cannot be reached and
  one that rejects the insert with a foreign-key violation (error 547).
\<close>

fun decimal :: "nat \<Rightarrow> string" where
  "decimal n =
     (if n < 10 then [char_of (48 + n)]
      else decimal (n div 10) @ [char_of (48 + n mod 10)])"

definition healthy :: runtime where
  "healthy =
     \<lparr>to_number_ext = (\<lambda>v. Inr NaN),
      connect_outcome = None,
      query_outcome = (\<lambda>text inputs. Inr []),
      close_outcome = None,
      elapsed_ms = 5,
      toISOString = decimal\<rparr>"

definition socket_error :: js_error where
  "socket_error =
     \<lparr>err_code = JStr ''ESOCKET'', err_number = JUndefined,
      err_message = JStr ''Failed to connect to db.example:1433''\<rparr>"

definition foreign_key_error :: js_error where
  "foreign_key_error =
     \<lparr>err_code = JStr ''EREQUEST'', err_number = JNum 547,
      err_message = JStr ''The INSERT statement conflicted with the FOREIGN KEY constraint''\<rparr>"

definition unreachable :: runtime where
  "unreachable = healthy\<lparr>connect_outcome := Some socket_error\<rparr>"

definition rejecting :: runtime where
  "rejecting = healthy\<lparr>query_outcome := (\<lambda>text inputs. Inl foreign_key_error)\<rparr>"

definition emp001_body :: "(string \<times> jsval) list" where
  "emp001_body =
     [(''employeeId'', JStr ''EMP001''), (''scanDateTime'', JStr ''2024-01-15T09:00:00Z'')]"

definition captured_emp001 :: scanner where
  "captured_emp001 =
     \<lparr>permission = Some True, scanned = True, scannedData = ''EMP001'',
      scanTime = ''1705309200000'', facing = Back, isActive = True\<rparr>"

declare decimal.simps [simp del]

section \<open>The paths through the ingestion handler\<close>

lemma field_absent: "k \<notin> fst ` set obj \<Longrightarrow> field obj k = JUndefined"
  by (simp add: field_def map_of_eq_None_iff [THEN iffD2])

lemma string_in_range:
  "3 \<le> length s \<Longrightarrow> length s \<le> 50 \<Longrightarrow> length_out_of_range rt (JStr s) = Inr False"
  by (simp add: length_out_of_range_def js_lt_def js_gt_def)

lemma string_out_of_range:
  "length s < 3 \<or> 50 < length s \<Longrightarrow> length_out_of_range rt (JStr s) = Inr True"
  by (auto simp add: length_out_of_range_def js_lt_def js_gt_def)


lemma post_scan_missing:
  "\<not> truthy (field reqBody ''employeeId'') \<or> \<not> truthy (field reqBody ''scanDateTime'') \<Longrightarrow>
   post_scan rt received reqBody = \<lparr>responses = [missing_response], ops = []\<rparr>"
  by (auto simp add: post_scan_def Let_def)

lemma post_scan_length:
  "truthy (field reqBody ''employeeId'') \<Longrightarrow> truthy (field reqBody ''scanDateTime'') \<Longrightarrow>
   length_out_of_range rt (field reqBody ''employeeId'') = Inr True \<Longrightarrow>
   post_scan rt received reqBody = \<lparr>responses = [length_response], ops = []\<rparr>"
  by (simp add: post_scan_def Let_def)

lemma post_scan_connect_fails:
  "truthy (field reqBody ''employeeId'') \<Longrightarrow> truthy (field reqBody ''scanDateTime'') \<Longrightarrow>
   length_out_of_range rt (field reqBody ''employeeId'') = Inr False \<Longrightarrow>
   connect_outcome rt = Some e \<Longrightarrow>
   post_scan rt received reqBody = \<lparr>responses = [catch_response e], ops = [Connect False]\<rparr>"
  by (simp add: post_scan_def Let_def)

lemma post_scan_query_fails:
  "truthy (field reqBody ''employeeId'') \<Longrightarrow> truthy (field reqBody ''scanDateTime'') \<Longrightarrow>
   length_out_of_range rt (field reqBody ''employeeId'') = Inr False \<Longrightarrow>
   connect_outcome rt = None \<Longrightarrow>
   query_outcome rt sqlQuery
     (scan_inputs (field reqBody ''employeeId'') (field reqBody ''scanDateTime'')
        (field reqBody ''scanType'') (field reqBody ''deviceInfo'')) = Inl e \<Longrightarrow>
   post_scan rt received reqBody =
     \<lparr>responses = [catch_response e],
      ops = [Connect True,
             Query sqlQuery
               (scan_inputs (field reqBody ''employeeId'') (field reqBody ''scanDateTime'')
                  (field reqBody ''scanType'') (field reqBody ''deviceInfo'')) False]\<rparr>"
  by (simp add: post_scan_def Let_def)


text \<open>Every call of \<^verbatim>\<open>res.status(..).json(..)\<close> writes one of four bodies.\<close>

lemma post_scan_responses:
  "r \<in> set (responses (post_scan rt received reqBody)) \<Longrightarrow>
   r = missing_response \<or> r = length_response \<or> (\<exists>e. r = catch_response e) \<or>
   r = created_response rt received (field reqBody ''employeeId'')
         (field reqBody ''scanDateTime'') (field reqBody ''scanType'')"
  by (auto simp add: post_scan_def Let_def split: if_splits sum.splits bool.splits option.splits)

lemma catch_response_status:
  "status (catch_response e) =
     (if err_code e = JStr ''ELOGIN'' then 401
      else if err_code e = JStr ''ESOCKET'' then 503
      else if err_number e = JNum 208 then 500
      else if err_number e = JNum 547 then 400
      else 500)"
  by (simp add: catch_response_def)

lemma catch_response_body:
  "\<exists>m. body (catch_response e) =
     [(''success'', JBool False), (''message'', JStr m), (''error'', err_message e),
      (''errorCode'', js_or (err_code e) (err_number e))]"
  by (simp add: catch_response_def)

text \<open>The retrieval path leaves its pool open in the same way when the query throws.\<close>

lemma get_scans_pool_left_open:
  "connect_outcome rt = None \<Longrightarrow> query_outcome rt scansQuery [] = Inl e \<Longrightarrow>
   acquired (get_scans rt) \<and> \<not> released (get_scans rt)"
  by (simp add: get_scans_def acquired_def released_def)

section \<open>The steps of the scanner screen\<close>


text \<open>With a render after every event, \<open>play\<close> is \<open>run\<close>.\<close>

lemma play_with_renders:
  "play fmt (concat (map (\<lambda>e. [Event e, Render]) es)) \<lparr>hooks = s, rendered = s\<rparr> =
     (case run fmt es s of (s', fx) \<Rightarrow> (\<lparr>hooks = s', rendered = s'\<rparr>, fx))"
proof (induction es arbitrary: s)
  case Nil
  then show ?case by simp
next
  case (Cons e es)
  obtain s' fx where e: "deliver fmt s e s = (s', fx)"
    by (cases "deliver fmt s e s")
  with Cons [of s'] show ?case
    by (simp add: step_def split: prod.splits)
qed

text \<open>
  A render that has read \<open>Captured\<close> discards every detection: its camera view has no
  \<^verbatim>\<open>onBarcodeScanned\<close>. So once a render has followed the capture, detections and further
  renders change nothing.
\<close>

lemma detection_discarded:
  "scanned render \<Longrightarrow> deliver fmt render (BarcodeDetected now type data) s = (s, [])"
  by (simp add: detection_enabled_def)

lemma detections_discarded:
  "scanned (hooks sc) \<Longrightarrow> scanned (rendered sc) \<Longrightarrow> \<forall>m \<in> set ms. detection_or_render m \<Longrightarrow>
   hooks (fst (play fmt ms sc)) = hooks sc \<and> snd (play fmt ms sc) = []"
proof (induction ms arbitrary: sc)
  case Nil
  then show ?case by simp
next
  case (Cons m ms)
  show ?case
  proof (cases m)
    case Render
    with Cons.prems Cons.IH [of "sc\<lparr>rendered := hooks sc\<rparr>"] show ?thesis
      by (simp split: prod.splits)
  next
    case (Event e)
    with Cons.prems obtain now type data where "e = BarcodeDetected now type data"
      by (cases e) auto
    with Event Cons.prems Cons.IH [of sc] show ?thesis
      by (simp add: detection_discarded del: deliver.simps split: prod.splits)
  qed
qed

text \<open>
  When the screen renders between the first detection and the next ones, only the first
  detection produces a candidate, and the reset returns the machine to \<open>Idle\<close>.
\<close>

lemma first_detection_only_after_render:
  assumes "camera_rendered s" and "\<not> scanned s" and "\<forall>m \<in> set ms. detection_or_render m"
  shows "hooks (fst (play fmt (Event (BarcodeDetected now type d) # Render # ms)
                  \<lparr>hooks = s, rendered = s\<rparr>)) =
           s\<lparr>scanned := True, scannedData := d, scanTime := fmt now\<rparr> \<and>
         snd (play fmt (Event (BarcodeDetected now type d) # Render # ms)
                  \<lparr>hooks = s, rendered = s\<rparr>) =
           [Alert ''Barcode Scanned!'' (alert_message type d (fmt now)) [''OK'', ''Scan Again'']] \<and>
         step fmt PressScanAgain (s\<lparr>scanned := True, scannedData := d, scanTime := fmt now\<rparr>) =
           (s\<lparr>scanned := False, scannedData := '''', scanTime := ''''\<rparr>, []) \<and>
         detection_enabled (s\<lparr>scanned := False, scannedData := '''', scanTime := ''''\<rparr>)"
proof -
  let ?c = "s\<lparr>scanned := True, scannedData := d, scanTime := fmt now\<rparr>"
  have first: "deliver fmt s (BarcodeDetected now type d) s =
      (?c, [Alert ''Barcode Scanned!'' (alert_message type d (fmt now)) [''OK'', ''Scan Again'']])"
    using assms(1,2) by (simp add: detection_enabled_def handleBarCodeScanned_def Let_def)
  have rest: "hooks (fst (play fmt ms \<lparr>hooks = ?c, rendered = ?c\<rparr>)) = ?c \<and>
              snd (play fmt ms \<lparr>hooks = ?c, rendered = ?c\<rparr>) = []"
    using detections_discarded [of "\<lparr>hooks = ?c, rendered = ?c\<rparr>" ms fmt] assms(3) by simp
  have "step fmt PressScanAgain ?c =
      (s\<lparr>scanned := False, scannedData := '''', scanTime := ''''\<rparr>, [])"
    using assms(1) by (simp add: step_def camera_rendered_def resetScanner_def)
  with rest show ?thesis
    using assms(1)
    by (simp add: first detection_enabled_def camera_rendered_def case_prod_beta
        del: deliver.simps)
qed

section \<open>Accepted candidates\<close>




section \<open>Rejected candidates\<close>

text \<open>
  Claim C2. A candidate in which \<open>employeeId\<close> or \<open>scanDateTime\<close> is missing is answered
  with 400 and the message of a missing field, and the handler makes no call on the
  storage at all: no connection is asked for and nothing is written.
\<close>

theorem missing_field_rejected:
  assumes "''employeeId'' \<notin> fst ` set reqBody \<or> ''scanDateTime'' \<notin> fst ` set reqBody"
  shows "post_scan rt received reqBody = \<lparr>responses = [missing_response], ops = []\<rparr> \<and>
         status missing_response = 400 \<and>
         field (body missing_response) ''message'' =
           JStr ''Employee ID and scan time are required''"
proof -
  from assms
  have "field reqBody ''employeeId'' = JUndefined \<or> field reqBody ''scanDateTime'' = JUndefined"
    by (auto simp add: field_absent)
  then have "\<not> truthy (field reqBody ''employeeId'') \<or> \<not> truthy (field reqBody ''scanDateTime'')"
    by auto
  then show ?thesis
    by (simp add: post_scan_missing) (simp add: missing_response_def field_def)
qed

theorem missing_field_rejected_witness:
  "post_scan healthy 1000 [(''scanDateTime'', JStr ''2024-01-15T09:00:00Z'')] =
     \<lparr>responses = [missing_response], ops = []\<rparr>"
  using missing_field_rejected [of "[(''scanDateTime'', JStr ''2024-01-15T09:00:00Z'')]" healthy 1000]
  by simp

text \<open>
  Claim C3, as amended. A candidate whose \<open>scanDateTime\<close> is present and whose
  \<open>employeeId\<close> is a non-empty string of fewer than 3 or more than 50 code units is
  answered with 400 and the message of the length constraint, and the handler makes no
  call on the storage.
\<close>

theorem out_of_range_id_rejected:
  assumes "field reqBody ''employeeId'' = JStr s" and "s \<noteq> []"
    and "length s < 3 \<or> 50 < length s"
    and "truthy (field reqBody ''scanDateTime'')"
  shows "post_scan rt received reqBody = \<lparr>responses = [length_response], ops = []\<rparr> \<and>
         status length_response = 400 \<and>
         field (body length_response) ''message'' =
           JStr ''Employee ID must be between 3 and 50 characters''"
proof -
  have "truthy (field reqBody ''employeeId'')"
    using assms(1,2) by simp
  moreover have "length_out_of_range rt (field reqBody ''employeeId'') = Inr True"
    using assms(1,3) by (simp add: string_out_of_range)
  ultimately show ?thesis
    using assms(4) by (simp add: post_scan_length) (simp add: length_response_def field_def)
qed

text \<open>The spec's scenario \<^verbatim>\<open>{employeeId: "AB", scanDateTime: "2024-01-15T09:00:00Z"}\<close>.\<close>

theorem out_of_range_id_rejected_witness:
  "post_scan healthy 1000
     [(''employeeId'', JStr ''AB''), (''scanDateTime'', JStr ''2024-01-15T09:00:00Z'')] =
     \<lparr>responses = [length_response], ops = []\<rparr>"
  using out_of_range_id_rejected
    [of "[(''employeeId'', JStr ''AB''), (''scanDateTime'', JStr ''2024-01-15T09:00:00Z'')]"
        "''AB''" healthy 1000]
  by (simp add: field_def)

text \<open>
  The empty string has length 0, below 3, but it is falsy: the first check answers it,
  with the message of a missing field and not that of the length constraint.
\<close>

theorem empty_id_rejected_as_missing:
  "length '''' < (3::nat) \<and>
   responses (post_scan healthy 1000
     [(''employeeId'', JStr ''''), (''scanDateTime'', JStr ''2024-01-15T09:00:00Z'')]) =
     [missing_response] \<and>
   missing_response \<noteq> length_response"
  by (simp add: post_scan_def Let_def field_def missing_response_def length_response_def)

section \<open>Storage failures\<close>

text \<open>
  Claim C4. When a candidate has passed validation and \<^verbatim>\<open>sql.connect\<close> or the insert
  throws \<open>e\<close>, the client is sent the catch block's response for \<open>e\<close>, whose status is
  fixed by the first test of the chain that \<open>e\<close> meets: 401 for the code \<^verbatim>\<open>ELOGIN\<close>
  (credentials rejected), 503 for the code \<^verbatim>\<open>ESOCKET\<close> (host unreachable, socket
  failure), 400 for the number 547 (foreign-key violation), 500 for the number 208
  (object not found) and 500 for every other error. The five cases exclude each other
  and leave no error out.
\<close>

theorem storage_failure_classified:
  assumes "truthy (field reqBody ''employeeId'')" and "truthy (field reqBody ''scanDateTime'')"
    and "length_out_of_range rt (field reqBody ''employeeId'') = Inr False"
    and "connect_outcome rt = Some e \<or>
         connect_outcome rt = None \<and>
         query_outcome rt sqlQuery
           (scan_inputs (field reqBody ''employeeId'') (field reqBody ''scanDateTime'')
              (field reqBody ''scanType'') (field reqBody ''deviceInfo'')) = Inl e"
  shows "sent (post_scan rt received reqBody) = Some (catch_response e) \<and>
         (err_code e = JStr ''ELOGIN'' \<longrightarrow> status (catch_response e) = 401) \<and>
         (err_code e = JStr ''ESOCKET'' \<longrightarrow> status (catch_response e) = 503) \<and>
         (err_code e \<noteq> JStr ''ELOGIN'' \<and> err_code e \<noteq> JStr ''ESOCKET'' \<and>
          err_number e = JNum 547 \<longrightarrow> status (catch_response e) = 400) \<and>
         (err_code e \<noteq> JStr ''ELOGIN'' \<and> err_code e \<noteq> JStr ''ESOCKET'' \<and>
          err_number e = JNum 208 \<longrightarrow> status (catch_response e) = 500) \<and>
         (err_code e \<noteq> JStr ''ELOGIN'' \<and> err_code e \<noteq> JStr ''ESOCKET'' \<and>
          err_number e \<noteq> JNum 547 \<and> err_number e \<noteq> JNum 208 \<longrightarrow>
          status (catch_response e) = 500)"
proof -
  from assms(4) have "sent (post_scan rt received reqBody) = Some (catch_response e)"
  proof
    assume "connect_outcome rt = Some e"
    from post_scan_connect_fails [OF assms(1-3) this] show ?thesis
      by (simp add: sent_def)
  next
    assume "connect_outcome rt = None \<and>
         query_outcome rt sqlQuery
           (scan_inputs (field reqBody ''employeeId'') (field reqBody ''scanDateTime'')
              (field reqBody ''scanType'') (field reqBody ''deviceInfo'')) = Inl e"
    then show ?thesis
      using post_scan_query_fails [OF assms(1-3), of e received] by (simp add: sent_def)
  qed
  then show ?thesis
    by (simp add: catch_response_status)
qed

text \<open>An unreachable host at the connection, and a foreign-key violation at the insert.\<close>

theorem storage_failure_classified_witness:
  "sent (post_scan unreachable 1000 emp001_body) = Some (catch_response socket_error) \<and>
   status (catch_response socket_error) = 503 \<and>
   sent (post_scan rejecting 1000 emp001_body) = Some (catch_response foreign_key_error) \<and>
   status (catch_response foreign_key_error) = 400"
proof -
  have a: "truthy (field emp001_body ''employeeId'')"
    and b: "truthy (field emp001_body ''scanDateTime'')"
    by (simp_all add: emp001_body_def field_def)
  have c: "length_out_of_range rt (field emp001_body ''employeeId'') = Inr False" for rt
    by (simp add: emp001_body_def field_def string_in_range)
  have d: "connect_outcome unreachable = Some socket_error \<or>
         connect_outcome unreachable = None \<and>
         query_outcome unreachable sqlQuery
           (scan_inputs (field emp001_body ''employeeId'') (field emp001_body ''scanDateTime'')
              (field emp001_body ''scanType'') (field emp001_body ''deviceInfo'')) =
           Inl socket_error"
    by (simp add: unreachable_def)
  have e: "connect_outcome rejecting = Some foreign_key_error \<or>
         connect_outcome rejecting = None \<and>
         query_outcome rejecting sqlQuery
           (scan_inputs (field emp001_body ''employeeId'') (field emp001_body ''scanDateTime'')
              (field emp001_body ''scanType'') (field emp001_body ''deviceInfo'')) =
           Inl foreign_key_error"
    by (simp add: rejecting_def healthy_def)
  from storage_failure_classified [OF a b c d, of 1000]
    storage_failure_classified [OF a b c e, of 1000]
  show ?thesis
    by (simp add: socket_error_def foreign_key_error_def)
qed

section \<open>The capture state machine\<close>

text \<open>
  Claim C5 asks that, of the detections that arrive from \<open>Idle\<close>, only the first produces
  a candidate and the later ones are discarded. The guard of \<^verbatim>\<open>handleBarCodeScanned\<close> and
  the \<^verbatim>\<open>onBarcodeScanned\<close> prop both test the \<open>scanned\<close> that their render read. When a
  second detection reaches the handler of the same \<open>Idle\<close> render, before the screen has
  rendered again, it passes both tests: it shows a second alert and the candidate held is
  its payload and time, no longer those of the first detection.
\<close>

theorem second_detection_before_render_captures:
  assumes "camera_rendered s" and "\<not> scanned s"
  shows "play fmt [Event (BarcodeDetected now1 type1 d1), Event (BarcodeDetected now2 type2 d2)]
           \<lparr>hooks = s, rendered = s\<rparr> =
           (\<lparr>hooks = s\<lparr>scanned := True, scannedData := d2, scanTime := fmt now2\<rparr>,
             rendered = s\<rparr>,
            [Alert ''Barcode Scanned!'' (alert_message type1 d1 (fmt now1))
               [''OK'', ''Scan Again''],
             Alert ''Barcode Scanned!'' (alert_message type2 d2 (fmt now2))
               [''OK'', ''Scan Again'']])"
  using assms by (simp add: detection_enabled_def handleBarCodeScanned_def Let_def)

text \<open>
  Two detections 40 ms apart on the freshly mounted screen, the permission granted: the
  candidate held is \<^verbatim>\<open>EMP002\<close>, and two alerts have been shown.
\<close>

theorem second_detection_before_render_captures_witness:
  "play decimal
     [Event (BarcodeDetected 1000 ''code128'' ''EMP001''),
      Event (BarcodeDetected 1040 ''code128'' ''EMP002'')]
     \<lparr>hooks = mounted\<lparr>permission := Some True\<rparr>, rendered = mounted\<lparr>permission := Some True\<rparr>\<rparr> =
     (\<lparr>hooks = mounted\<lparr>permission := Some True, scanned := True, scannedData := ''EMP002'',
                      scanTime := decimal 1040\<rparr>,
       rendered = mounted\<lparr>permission := Some True\<rparr>\<rparr>,
      [Alert ''Barcode Scanned!'' (alert_message ''code128'' ''EMP001'' (decimal 1000))
         [''OK'', ''Scan Again''],
       Alert ''Barcode Scanned!'' (alert_message ''code128'' ''EMP002'' (decimal 1040))
         [''OK'', ''Scan Again'']])"
proof -
  have a: "camera_rendered (mounted\<lparr>permission := Some True\<rparr>)"
    and b: "\<not> scanned (mounted\<lparr>permission := Some True\<rparr>)"
    by (simp_all add: camera_rendered_def mounted_def)
  from second_detection_before_render_captures [OF a b] show ?thesis .
qed

section \<open>Release of the storage connection\<close>

text \<open>
  Claim C6 asks that a request that acquired a connection releases it on every exit
  path. The handler closes the pool on the path of a successful insert only: when the
  connection is obtained and the insert throws, the catch block answers and the pool is
  never closed.
\<close>

theorem pool_left_open_when_insert_fails:
  assumes "truthy (field reqBody ''employeeId'')" and "truthy (field reqBody ''scanDateTime'')"
    and "length_out_of_range rt (field reqBody ''employeeId'') = Inr False"
    and "connect_outcome rt = None"
    and "query_outcome rt sqlQuery
           (scan_inputs (field reqBody ''employeeId'') (field reqBody ''scanDateTime'')
              (field reqBody ''scanType'') (field reqBody ''deviceInfo'')) = Inl e"
  shows "acquired (post_scan rt received reqBody) \<and> \<not> released (post_scan rt received reqBody)"
  by (simp add: post_scan_query_fails [OF assms] acquired_def released_def)

theorem pool_left_open_when_insert_fails_witness:
  "acquired (post_scan rejecting 1000 emp001_body) \<and>
   \<not> released (post_scan rejecting 1000 emp001_body) \<and>
   ops (post_scan rejecting 1000 emp001_body) =
     [Connect True,
      Query sqlQuery
        [(''employeeId'', VarChar 50, Val (JStr ''EMP001'')),
         (''scanDateTime'', DateTime2, NewDate (JStr ''2024-01-15T09:00:00Z'')),
         (''scanType'', VarChar 20, Val (JStr ''UNKNOWN'')),
         (''deviceInfo'', VarChar 100, Val (JStr ''Mobile Scanner''))]
        False]"
proof -
  have a: "truthy (field emp001_body ''employeeId'')"
    and b: "truthy (field emp001_body ''scanDateTime'')"
    by (simp_all add: emp001_body_def field_def)
  have c: "length_out_of_range rejecting (field emp001_body ''employeeId'') = Inr False"
    by (simp add: emp001_body_def field_def string_in_range)
  have d: "connect_outcome rejecting = None"
    by (simp add: rejecting_def healthy_def)
  have e: "query_outcome rejecting sqlQuery
           (scan_inputs (field emp001_body ''employeeId'') (field emp001_body ''scanDateTime'')
              (field emp001_body ''scanType'') (field emp001_body ''deviceInfo'')) =
           Inl foreign_key_error"
    by (simp add: rejecting_def healthy_def)
  have "ops (post_scan rejecting 1000 emp001_body) =
     [Connect True,
      Query sqlQuery
        [(''employeeId'', VarChar 50, Val (JStr ''EMP001'')),
         (''scanDateTime'', DateTime2, NewDate (JStr ''2024-01-15T09:00:00Z'')),
         (''scanType'', VarChar 20, Val (JStr ''UNKNOWN'')),
         (''deviceInfo'', VarChar 100, Val (JStr ''Mobile Scanner''))]
        False]"
    by (simp add: post_scan_query_fails [OF a b c d e])
       (simp add: scan_inputs_def js_or_def emp001_body_def field_def)
  with pool_left_open_when_insert_fails [OF a b c d e, of 1000] show ?thesis
    by simp
qed

section \<open>Focus, acknowledgement and the held candidate\<close>

text \<open>
  Claim C7, as amended. When the screen loses focus and regains it, \<open>isActive\<close> is true
  again and nothing else has changed: \<open>scanned\<close>, the held candidate and its time are
  what they were. Detection is therefore on again exactly when the permission is granted
  and the machine was in \<open>Idle\<close>; from \<open>Captured\<close> the machine stays in \<open>Captured\<close>.
\<close>

theorem focus_cycle_keeps_capture_state:
  "run fmt [ScreenBlurred, ScreenFocused] s = (s\<lparr>isActive := True\<rparr>, []) \<and>
   scanned (fst (run fmt [ScreenBlurred, ScreenFocused] s)) = scanned s \<and>
   scannedData (fst (run fmt [ScreenBlurred, ScreenFocused] s)) = scannedData s \<and>
   scanTime (fst (run fmt [ScreenBlurred, ScreenFocused] s)) = scanTime s \<and>
   detection_enabled (fst (run fmt [ScreenBlurred, ScreenFocused] s)) =
     (permission s = Some True \<and> \<not> scanned s)"
  by (simp add: step_def detection_enabled_def camera_rendered_def)

theorem focus_cycle_keeps_capture_state_witness:
  "run decimal [ScreenBlurred, ScreenFocused] captured_emp001 = (captured_emp001, [])"
  using focus_cycle_keeps_capture_state [of decimal captured_emp001]
  by (simp add: captured_emp001_def)

text \<open>
  The claim has the machine go from \<open>Captured\<close> to \<open>Idle\<close> with detection on again. From
  the state holding \<^verbatim>\<open>EMP001\<close>, the machine is still in \<open>Captured\<close> after the screen has
  lost and regained focus, and detection is still off.
\<close>

theorem focus_regain_stays_captured:
  "scanned captured_emp001 \<and>
   scanned (fst (run decimal [ScreenBlurred, ScreenFocused] captured_emp001)) \<and>
   \<not> detection_enabled (fst (run decimal [ScreenBlurred, ScreenFocused] captured_emp001))"
  by (simp add: step_def captured_emp001_def detection_enabled_def)




section \<open>The bodies of failure responses\<close>

text \<open>
  Claim C9, as amended. Every response of the ingestion endpoint other than the 201 has
  \<open>success\<close> false and a \<open>message\<close>. A validation failure is written with these two
  keys only. A response of the catch block is written with the four keys \<open>success\<close>,
  \<open>message\<close>, \<open>error\<close> and \<open>errorCode\<close>, where \<open>error\<close> is the message of the error
  caught and \<open>errorCode\<close> is its code or, when that is falsy, its number.
\<close>

theorem failure_body_shapes:
  "\<forall>r \<in> set (responses (post_scan rt received reqBody)).
     status r \<noteq> 201 \<longrightarrow>
       field (body r) ''success'' = JBool False \<and>
       (\<exists>m. field (body r) ''message'' = JStr m) \<and>
       ((r = missing_response \<or> r = length_response) \<and>
        body_keys r = [''success'', ''message'']
        \<or>
        (\<exists>e. r = catch_response e \<and>
              field (body r) ''error'' = err_message e \<and>
              field (body r) ''errorCode'' = js_or (err_code e) (err_number e)) \<and>
        body_keys r = [''success'', ''message'', ''error'', ''errorCode''])"
proof (intro ballI impI)
  fix r
  assume r: "r \<in> set (responses (post_scan rt received reqBody))" and s: "status r \<noteq> 201"
  from post_scan_responses [OF r]
  consider "r = missing_response" | "r = length_response" | e where "r = catch_response e"
    | "r = created_response rt received (field reqBody ''employeeId'')
         (field reqBody ''scanDateTime'') (field reqBody ''scanType'')"
    by blast
  then show "field (body r) ''success'' = JBool False \<and>
       (\<exists>m. field (body r) ''message'' = JStr m) \<and>
       ((r = missing_response \<or> r = length_response) \<and>
        body_keys r = [''success'', ''message'']
        \<or>
        (\<exists>e. r = catch_response e \<and>
              field (body r) ''error'' = err_message e \<and>
              field (body r) ''errorCode'' = js_or (err_code e) (err_number e)) \<and>
        body_keys r = [''success'', ''message'', ''error'', ''errorCode''])"
  proof cases
    case 1
    then show ?thesis by (simp add: missing_response_def field_def body_keys_def)
  next
    case 2
    then show ?thesis by (simp add: length_response_def field_def body_keys_def)
  next
    case 3
    obtain m where m: "body (catch_response e) =
       [(''success'', JBool False), (''message'', JStr m), (''error'', err_message e),
        (''errorCode'', js_or (err_code e) (err_number e))]"
      using catch_response_body by blast
    have "\<exists>e'. catch_response e = catch_response e' \<and>
              field (body (catch_response e)) ''error'' = err_message e' \<and>
              field (body (catch_response e)) ''errorCode'' = js_or (err_code e') (err_number e')"
      by (rule exI [of _ e]) (simp add: m field_def)
    then show ?thesis
      unfolding 3 by (simp add: m field_def body_keys_def)
  next
    case 4
    with s show ?thesis by (simp add: created_response_def)
  qed
qed

text \<open>The response to an insert that the storage rejects with a foreign-key violation.\<close>

theorem failure_body_shapes_witness:
  "responses (post_scan rejecting 1000 emp001_body) = [catch_response foreign_key_error] \<and>
   field (body (catch_response foreign_key_error)) ''success'' = JBool False \<and>
   body (catch_response foreign_key_error) =
     [(''success'', JBool False),
      (''message'', JStr ''Employee ID not found in system.''),
      (''error'', JStr ''The INSERT statement conflicted with the FOREIGN KEY constraint''),
      (''errorCode'', JStr ''EREQUEST'')]"
proof -
  have r: "responses (post_scan rejecting 1000 emp001_body) = [catch_response foreign_key_error]"
    by (simp add: post_scan_def Let_def emp001_body_def field_def rejecting_def healthy_def
      length_out_of_range_def js_lt_def js_gt_def)
  have s: "status (catch_response foreign_key_error) \<noteq> 201"
    by (simp add: catch_response_status foreign_key_error_def)
  from failure_body_shapes [of rejecting 1000 emp001_body] r s
  have "field (body (catch_response foreign_key_error)) ''success'' = JBool False"
    by simp
  then show ?thesis
    using r by (simp add: catch_response_def foreign_key_error_def js_or_def)
qed

text \<open>
  The claim gives the four keys to validation failures too. The response to a request
  without \<open>employeeId\<close> is a failure response and has neither \<open>error\<close> nor \<open>errorCode\<close>.
\<close>

theorem validation_failure_body_shape:
  "responses (post_scan healthy 1000 [(''scanDateTime'', JStr ''2024-01-15T09:00:00Z'')]) =
     [missing_response] \<and>
   body_keys missing_response = [''success'', ''message'']"
  by (simp add: post_scan_def Let_def field_def missing_response_def body_keys_def)

section \<open>Identifiers that are not strings\<close>



end
